theory Spec2Isabelle
  imports Complex_Main "HOL-Library.Multiset" "HOL-Library.Sublist"
begin

section \<open>Errors and scalars\<close>

text \<open>
  The exceptions \<^verbatim>\<open>mmdet/apis/inference.py\<close> raises itself or lets propagate.
  \<open>External\<close> stands for whatever a call into mmcv, torch or the detector raises.
\<close>

datatype error =
    TypeError string
  | ValueError string
  | KeyError string
  | AttributeError string
  | IndexError
  | StopIteration
  | External string

text \<open>
  Tensor entries are idealised as real numbers: rounding, overflow and the infinities of
  floating point are outside the model, so a value statement below is about the formula
  and not about what float32 rounds it to (an entry that saturates to 0.0 or 1.0 makes the
  code's logarithms infinite). The one non-number kept is the mean of an empty
  tensor, which torch returns as \<^verbatim>\<open>nan\<close> (0/0); it is the value \<open>NaN\<close>. torch's sort
  places \<^verbatim>\<open>nan\<close> after every number, and so does the order below.
\<close>

datatype scalar = Val real | NaN

instantiation scalar :: linorder
begin

fun less_eq_scalar :: "scalar \<Rightarrow> scalar \<Rightarrow> bool" where
  "less_eq_scalar (Val a) (Val b) = (a \<le> b)"
| "less_eq_scalar (Val a) NaN = True"
| "less_eq_scalar NaN (Val b) = False"
| "less_eq_scalar NaN NaN = True"

definition less_scalar :: "scalar \<Rightarrow> scalar \<Rightarrow> bool" where
  "less_scalar a b = (a \<le> b \<and> \<not> b \<le> a)"

instance
proof
  fix x y z :: scalar
  show "(x < y) = (x \<le> y \<and> \<not> y \<le> x)"
    by (simp add: less_scalar_def)
  show "x \<le> x"
    by (cases x) simp_all
  show "x \<le> y \<Longrightarrow> y \<le> z \<Longrightarrow> x \<le> z"
    by (cases x; cases y; cases z) simp_all
  show "x \<le> y \<Longrightarrow> y \<le> x \<Longrightarrow> x = y"
    by (cases x; cases y) simp_all
  show "x \<le> y \<or> y \<le> x"
    by (cases x; cases y) auto
qed

end

section \<open>Python values, configurations and detectors\<close>

text \<open>
  The values found in the dict that \<open>LoadImage\<close> works on. An array carries its shape and
  a number that identifies its contents. \<open>PObj\<close> is any other object, given by the text
  of its type.
\<close>

datatype pyval =
    PNone
  | PInt int
  | PStr string
  | PTuple "pyval list"
  | PList "pyval list"
  | PArray "nat list" nat
  | PObj string

type_synonym dict = "string \<rightharpoonup> pyval"

text \<open>
  What \<^verbatim>\<open>mmcv.imread\<close> returns when it returns an array; the batch that \<^verbatim>\<open>collate\<close>
  makes of one sample (a list of image tensors and a list of \<^verbatim>\<open>DataContainer\<close>s under
  \<^verbatim>\<open>'img_metas'\<close>); the batch as the model receives it, with the image tensors under
  \<^verbatim>\<open>'img'\<close> or, once renamed, under \<^verbatim>\<open>'x'\<close>.
\<close>

datatype device = Cpu | Cuda nat

record image =
  shape :: "nat list"
  pixels :: nat

datatype img_tensor = ImgTensor device nat

datatype container = DataContainer pyval

record collated =
  c_img :: "img_tensor list"
  c_img_metas :: "container list"

record batch =
  b_img :: "img_tensor list"
  b_img_metas :: pyval

record kwargs =
  kw_x :: "img_tensor list"
  kw_img_metas :: pyval

text \<open>
  The entries of an \<^verbatim>\<open>mmcv.Config\<close> that this file reads: \<^verbatim>\<open>config.model\<close>,
  \<^verbatim>\<open>config.test_cfg\<close>, \<^verbatim>\<open>cfg.data.test.pipeline\<close>, \<^verbatim>\<open>cfg.uncertainty_type\<close> and
  \<^verbatim>\<open>cfg.k\<close>.
\<close>

record config =
  model_cfg :: dict
  test_cfg :: pyval
  test_pipeline :: "pyval list"
  uncertainty_type :: string
  k :: int

text \<open>
  A module of the network as the CPU branch of \<open>inference_detector\<close> sees it: whether it
  is a \<^verbatim>\<open>RoIPool\<close> or \<^verbatim>\<open>RoIAlign\<close>, its \<^verbatim>\<open>aligned\<close> attribute when it has one,
  and \<^verbatim>\<open>use_torchvision\<close>.
\<close>

record module =
  is_roi :: bool
  aligned :: "bool option"
  use_torchvision :: bool

type_synonym tensor = "real list list"

text \<open>
  The detector object. Its three call forms take the grad mode that is in force when they
  are called and the keyword arguments, and leave the grad mode as it is; they are given
  by the network, which is not part of this file. The second is the call with
  \<^verbatim>\<open>return_box=False\<close>, which returns the three lists of head outputs.
  \<^verbatim>\<open>model.cfg\<close> and \<^verbatim>\<open>model.CLASSES\<close> are attributes that exist only once they
  have been assigned.
\<close>

record detector =
  cfg :: "config option"
  CLASSES :: "pyval option"
  param_devices :: "device list"
  modules :: "module list"
  forward_result :: "bool \<Rightarrow> kwargs \<Rightarrow> error + pyval"
  forward_heads :: "bool \<Rightarrow> kwargs \<Rightarrow> error + (tensor list \<times> tensor list \<times> tensor list)"
  aforward_test :: "bool \<Rightarrow> batch \<Rightarrow> error + pyval"

text \<open>What \<^verbatim>\<open>load_checkpoint\<close> returns: a dict of which only \<^verbatim>\<open>'meta'\<close> is read.\<close>

record checkpoint =
  meta :: "dict option"

text \<open>
  The functions of mmcv, mmdet and torch that the file calls. They are parameters of the
  model: nothing is assumed about them but their types. \<open>compose\<close> builds the transforms
  of a pipeline configuration and returns the function that runs them in turn;
  \<open>scatter\<close> is \<^verbatim>\<open>scatter(data, [device])[0]\<close>; \<open>imread\<close> may return \<^verbatim>\<open>None\<close>.
\<close>

record env =
  fromfile :: "string \<Rightarrow> error + config"
  build_detector :: "dict \<Rightarrow> pyval \<Rightarrow> error + detector"
  load_checkpoint :: "detector \<Rightarrow> string \<Rightarrow> string option \<Rightarrow> error + (detector \<times> checkpoint)"
  get_classes :: "string \<Rightarrow> pyval"
  to_device :: "detector \<Rightarrow> string \<Rightarrow> error + detector"
  eval_mode :: "detector \<Rightarrow> detector"
  imread :: "pyval \<Rightarrow> error + image option"
  compose :: "pyval list \<Rightarrow> error + (dict \<Rightarrow> error + dict)"
  collate :: "dict \<Rightarrow> error + collated"
  scatter :: "collated \<Rightarrow> device \<Rightarrow> error + batch"
  cuda :: "img_tensor \<Rightarrow> error + img_tensor"

section \<open>Tensors and elementwise arithmetic\<close>

text \<open>
  A 2-D tensor of shape \<open>(N, C)\<close> is the list of its \<open>N\<close> rows. The binary operators
  are the elementwise ones of torch on two tensors of one shape, which is what the two
  heads \<^verbatim>\<open>y_head_f_1\<close> and \<^verbatim>\<open>y_head_f_2\<close> of the detector have; torch's
  broadcasting of unequal shapes is outside the model, and every statement below about two
  tensors carries \<open>same_shape\<close>.
\<close>

definition same_shape :: "tensor \<Rightarrow> tensor \<Rightarrow> bool" where
  "same_shape a b = (map length a = map length b)"

definition t_map :: "(real \<Rightarrow> real) \<Rightarrow> tensor \<Rightarrow> tensor" where
  "t_map f a = map (map f) a"

definition t_binop :: "(real \<Rightarrow> real \<Rightarrow> real) \<Rightarrow> tensor \<Rightarrow> tensor \<Rightarrow> tensor" where
  "t_binop f a b = map2 (map2 f) a b"

definition t_add :: "tensor \<Rightarrow> tensor \<Rightarrow> tensor" where
  "t_add = t_binop (+)"

definition t_sub :: "tensor \<Rightarrow> tensor \<Rightarrow> tensor" where
  "t_sub = t_binop (-)"

definition t_mul :: "tensor \<Rightarrow> tensor \<Rightarrow> tensor" where
  "t_mul = t_binop (*)"

definition t_div :: "tensor \<Rightarrow> tensor \<Rightarrow> tensor" where
  "t_div = t_binop (/)"

definition t_log :: "tensor \<Rightarrow> tensor" where
  "t_log = t_map ln"

definition t_neg :: "tensor \<Rightarrow> tensor" where
  "t_neg = t_map uminus"

definition t_pow :: "tensor \<Rightarrow> nat \<Rightarrow> tensor" where
  "t_pow a n = t_map (\<lambda>x. x ^ n) a"

text \<open>Scalar with tensor: \<^verbatim>\<open>c - t\<close>, \<^verbatim>\<open>c * t\<close> (also \<^verbatim>\<open>t * c\<close>) and \<^verbatim>\<open>t / c\<close>.\<close>

definition t_rsub :: "real \<Rightarrow> tensor \<Rightarrow> tensor" where
  "t_rsub c a = t_map (\<lambda>x. c - x) a"

definition t_smul :: "real \<Rightarrow> tensor \<Rightarrow> tensor" where
  "t_smul c a = t_map (\<lambda>x. c * x) a"

definition t_sdiv :: "tensor \<Rightarrow> real \<Rightarrow> tensor" where
  "t_sdiv a c = t_map (\<lambda>x. x / c) a"

text \<open>\<^verbatim>\<open>torch.nn.Sigmoid()\<close> and \<^verbatim>\<open>torch.cat(ts, 0)\<close>.\<close>

definition sigmoid :: "real \<Rightarrow> real" where
  "sigmoid x = 1 / (1 + exp (- x))"

definition t_sigmoid :: "tensor \<Rightarrow> tensor" where
  "t_sigmoid = t_map sigmoid"

definition cat0 :: "tensor list \<Rightarrow> tensor" where
  "cat0 ts = concat ts"

text \<open>
  \<^verbatim>\<open>t.mean()\<close> of a 1-D tensor of numbers, and \<^verbatim>\<open>t.mean(dim=1)\<close>, the mean of every
  row. The mean of no entries is \<^verbatim>\<open>nan\<close>.
\<close>

definition mean :: "real list \<Rightarrow> scalar" where
  "mean xs = (if xs = [] then NaN else Val (sum_list xs / real (length xs)))"

definition mean_dim1 :: "tensor \<Rightarrow> scalar list" where
  "mean_dim1 t = map mean t"

section \<open>The uncertainty formulas of \<open>inference_detector\<close>\<close>

text \<open>The lambda of line 135.\<close>

definition kl_diver :: "tensor \<Rightarrow> tensor \<Rightarrow> tensor" where
  "kl_diver p q = t_mul p (t_log (t_div p q))"

definition uncertainty_types :: "string list" where
  "uncertainty_types =
     [''l2_norm'', ''kl_divergence'', ''cross_entropy'', ''js_divergence'', ''focal_loss'']"

text \<open>Python's \<^verbatim>\<open>str\<close> of a list of strings none of which holds a quote or an escape.\<close>

fun join_comma :: "string list \<Rightarrow> string" where
  "join_comma [] = []"
| "join_comma [s] = s"
| "join_comma (s # t # ss) = s @ '', '' @ join_comma (t # ss)"

definition quoted :: "string \<Rightarrow> string" where
  "quoted s = [CHR 0x27] @ s @ [CHR 0x27]"

definition str_of_list :: "string list \<Rightarrow> string" where
  "str_of_list ss = ''['' @ join_comma (map quoted ss) @ '']''"

definition invalid_type_message :: "string \<Rightarrow> string" where
  "invalid_type_message ty =
     ty @ '' is not valid uncertainty_type. '' @
     ''List of possible uncertainty_type: '' @ str_of_list uncertainty_types @
     ''. Change it in config parameters.''"

text \<open>
  Lines 123 to 158: the branch on \<^verbatim>\<open>cfg.uncertainty_type\<close>, which yields
  \<^verbatim>\<open>uncertainty_all_N\<close> or raises. In the focal branch \<^verbatim>\<open>alpha_factor\<close> and
  \<^verbatim>\<open>modulating_factor\<close> start as the number 1 and are replaced when \<^verbatim>\<open>alpha\<close>,
  \<^verbatim>\<open>gamma\<close> are truthy (non-zero); a factor left at 1 multiplies like a tensor of ones.
\<close>

definition ones_like :: "tensor \<Rightarrow> tensor" where
  "ones_like a = t_map (\<lambda>x. 1) a"

definition uncertainty_all_N :: "string \<Rightarrow> tensor \<Rightarrow> tensor \<Rightarrow> error + scalar list" where
  "uncertainty_all_N ty y_head_f_1 y_head_f_2 =
    (if ty = ''l2_norm'' then
       (let loss_p = t_pow (t_sub y_head_f_1 y_head_f_2) 2
        in Inr (mean_dim1 loss_p))
     else if ty = ''kl_divergence'' then
       (let loss_p = t_mul y_head_f_1 (t_log (t_div y_head_f_1 y_head_f_2))
        in Inr (mean_dim1 loss_p))
     else if ty = ''cross_entropy'' then
       (let loss_p = t_neg (t_add (t_mul y_head_f_1 (t_log y_head_f_2))
                                  (t_mul (t_rsub 1 y_head_f_1) (t_log (t_rsub 1 y_head_f_2))))
        in Inr (mean_dim1 loss_p))
     else if ty = ''js_divergence'' then
       (let loss_p = t_smul 0.5 (kl_diver y_head_f_1 (t_sdiv (t_add y_head_f_1 y_head_f_2) 2));
            loss_p = t_add loss_p
                       (t_smul 0.5 (kl_diver y_head_f_2 (t_sdiv (t_add y_head_f_1 y_head_f_2) 2)))
        in Inr (mean_dim1 loss_p))
     else if ty = ''focal_loss'' then
       (let alpha = (0.25 :: real); gamma = (2 :: nat);
            p_t = t_add (t_mul y_head_f_1 y_head_f_2)
                        (t_mul (t_rsub 1 y_head_f_1) (t_rsub 1 y_head_f_2));
            ce = t_neg (t_add (t_mul y_head_f_1 (t_log y_head_f_2))
                              (t_mul (t_rsub 1 y_head_f_1) (t_log (t_rsub 1 y_head_f_2))));
            alpha_factor =
              (if alpha \<noteq> 0
               then t_add (t_smul alpha y_head_f_1) (t_smul (1 - alpha) (t_rsub 1 y_head_f_1))
               else ones_like ce);
            modulating_factor =
              (if gamma \<noteq> 0 then t_pow (t_rsub 1 p_t) gamma else ones_like ce)
        in Inr (mean_dim1 (t_mul (t_mul alpha_factor modulating_factor) ce)))
     else Inl (ValueError (invalid_type_message ty)))"

section \<open>Top-k aggregation\<close>

text \<open>
  \<^verbatim>\<open>t.argsort()\<close>: the indices that sort the 1-D tensor ascending (ties in index
  order; the values gathered through them do not depend on how ties are broken).
\<close>

definition argsort :: "scalar list \<Rightarrow> nat list" where
  "argsort u = sort_key (\<lambda>i. u ! i) [0..<length u]"

text \<open>
  The slice \<^verbatim>\<open>xs[start:]\<close> of Python: a negative start counts from the end, and a
  start beyond either end is clamped.
\<close>

definition slice_from :: "'a list \<Rightarrow> int \<Rightarrow> 'a list" where
  "slice_from xs start =
     (let n = int (length xs);
          s = (if start < 0 then max (start + n) 0 else min start n)
      in drop (nat s) xs)"

text \<open>\<^verbatim>\<open>u[idx]\<close> with a tensor of indices: an index outside the tensor raises.\<close>

definition index_by :: "scalar list \<Rightarrow> nat list \<Rightarrow> error + scalar list" where
  "index_by u idx =
     (if \<forall>i \<in> set idx. i < length u then Inr (map (\<lambda>i. u ! i) idx) else Inl IndexError)"

text \<open>\<^verbatim>\<open>t.mean()\<close> of a 1-D tensor that may hold \<^verbatim>\<open>nan\<close>.\<close>

fun the_val :: "scalar \<Rightarrow> real" where
  "the_val (Val x) = x"
| "the_val NaN = 0"

definition mean_all :: "scalar list \<Rightarrow> scalar" where
  "mean_all us = (if NaN \<in> set us then NaN else mean (map the_val us))"

text \<open>Lines 159 and 160.\<close>

definition uncertainty_single :: "int \<Rightarrow> scalar list \<Rightarrow> error + scalar" where
  "uncertainty_single kk uncertainty_all_N' =
     (let arg = argsort uncertainty_all_N'
      in case index_by uncertainty_all_N' (slice_from arg (- kk)) of
           Inl e \<Rightarrow> Inl e
         | Inr sel \<Rightarrow> Inr (mean_all sel))"

text \<open>Lines 119 to 160: from the two lists of head outputs to the scalar.\<close>

definition uncertainty :: "config \<Rightarrow> tensor list \<Rightarrow> tensor list \<Rightarrow> error + scalar" where
  "uncertainty c y_head_f_1 y_head_f_2 =
     (let y_head_f_1 = cat0 y_head_f_1;
          y_head_f_2 = cat0 y_head_f_2;
          y_head_f_1 = t_sigmoid y_head_f_1;
          y_head_f_2 = t_sigmoid y_head_f_2
      in case uncertainty_all_N (uncertainty_type c) y_head_f_1 y_head_f_2 of
           Inl err \<Rightarrow> Inl err
         | Inr u \<Rightarrow> uncertainty_single (k c) u)"

section \<open>\<open>init_detector\<close>\<close>

text \<open>
  The \<^verbatim>\<open>config\<close> argument: a string, an \<^verbatim>\<open>mmcv.Config\<close>, or anything else, of which
  only \<^verbatim>\<open>str(type(config))\<close> is used. The calls \<open>init_detector\<close> makes into the libraries
  are recorded in order.
\<close>

datatype config_arg = ArgStr string | ArgConfig config | ArgOther string

datatype event =
    Fromfile string
  | BuildDetector
  | LoadCheckpoint string "string option"
  | Warn string
  | ToDevice string
  | Eval

text \<open>Lines 27 to 31.\<close>

definition resolve_config :: "env \<Rightarrow> config_arg \<Rightarrow> event list \<Rightarrow> (error + config) \<times> event list" where
  "resolve_config e config calls =
     (case config of
        ArgStr path \<Rightarrow> (fromfile e path, calls @ [Fromfile path])
      | ArgConfig c \<Rightarrow> (Inr c, calls)
      | ArgOther ty \<Rightarrow>
          (Inl (TypeError (''config must be a filename or Config object, but got '' @ ty)), calls))"

text \<open>Lines 34 to 43.\<close>

definition load_weights ::
  "env \<Rightarrow> detector \<Rightarrow> string option \<Rightarrow> string \<Rightarrow> event list \<Rightarrow> (error + detector) \<times> event list" where
  "load_weights e model checkpoint dev calls =
     (case checkpoint of
        None \<Rightarrow> (Inr model, calls)
      | Some path \<Rightarrow>
          (let map_loc = (if dev = ''cpu'' then Some ''cpu'' else None);
               calls = calls @ [LoadCheckpoint path map_loc]
           in case load_checkpoint e model path map_loc of
                Inl err \<Rightarrow> (Inl err, calls)
              | Inr (model, ckpt) \<Rightarrow>
                  (case meta ckpt of
                     None \<Rightarrow> (Inl (KeyError ''meta''), calls)
                   | Some m \<Rightarrow>
                       (case m ''CLASSES'' of
                          Some cs \<Rightarrow> (Inr (model\<lparr>CLASSES := Some cs\<rparr>), calls)
                        | None \<Rightarrow>
                            (Inr (model\<lparr>CLASSES := Some (get_classes e ''coco'')\<rparr>),
                             calls @ [Warn (''Class names are not saved in the checkpoint's '' @
                                          ''meta data, use COCO classes by default.'')])))))"

definition init_detector ::
  "env \<Rightarrow> config_arg \<Rightarrow> string option \<Rightarrow> string \<Rightarrow> event list \<Rightarrow> (error + detector) \<times> event list" where
  "init_detector e config checkpoint dev calls =
     (case resolve_config e config calls of
        (Inl err, calls) \<Rightarrow> (Inl err, calls)
      | (Inr config, calls) \<Rightarrow>
          (let config = config\<lparr>model_cfg := (model_cfg config)(''pretrained'' \<mapsto> PNone)\<rparr>;
               calls = calls @ [BuildDetector]
           in case build_detector e (model_cfg config) (test_cfg config) of
                Inl err \<Rightarrow> (Inl err, calls)
              | Inr model \<Rightarrow>
                  (case load_weights e model checkpoint dev calls of
                     (Inl err, calls) \<Rightarrow> (Inl err, calls)
                   | (Inr model, calls) \<Rightarrow>
                       (let model = model\<lparr>cfg := Some config\<rparr>;
                            calls = calls @ [ToDevice dev]
                        in case to_device e model dev of
                             Inl err \<Rightarrow> (Inl err, calls)
                           | Inr model \<Rightarrow> (Inr (eval_mode e model), calls @ [Eval])))))"

section \<open>\<open>LoadImage\<close>\<close>

definition is_str :: "pyval \<Rightarrow> bool" where
  "is_str v = (case v of PStr _ \<Rightarrow> True | _ \<Rightarrow> False)"

definition shape_tuple :: "nat list \<Rightarrow> pyval" where
  "shape_tuple sh = PTuple (map (\<lambda>n. PInt (int n)) sh)"

text \<open>
  \<^verbatim>\<open>LoadImage.__call__\<close>. The dict is changed in place and returned; a missing
  \<^verbatim>\<open>'img'\<close> raises \<^verbatim>\<open>KeyError\<close>, and \<^verbatim>\<open>img.shape\<close> raises when \<^verbatim>\<open>imread\<close>
  returned \<^verbatim>\<open>None\<close>.
\<close>

definition LoadImage_call :: "(pyval \<Rightarrow> error + image option) \<Rightarrow> dict \<Rightarrow> error + dict" where
  "LoadImage_call imread' results =
     (case results ''img'' of
        None \<Rightarrow> Inl (KeyError ''img'')
      | Some v \<Rightarrow>
          (let results =
                 (if is_str v
                  then results(''filename'' \<mapsto> v, ''ori_filename'' \<mapsto> v)
                  else results(''filename'' \<mapsto> PNone, ''ori_filename'' \<mapsto> PNone))
           in case imread' v of
                Inl err \<Rightarrow> Inl err
              | Inr None \<Rightarrow> Inl (AttributeError ''shape'')
              | Inr (Some img) \<Rightarrow>
                  (let results = results(''img'' \<mapsto> PArray (shape img) (pixels img));
                       results = results(''img_fields'' \<mapsto> PList [PStr ''img'']);
                       results = results(''img_shape'' \<mapsto> shape_tuple (shape img));
                       results = results(''ori_shape'' \<mapsto> shape_tuple (shape img))
                   in Inr results)))"

section \<open>\<open>inference_detector\<close> and \<open>async_inference_detector\<close>\<close>

text \<open>
  The state the two functions work on: the detector (whose modules the CPU branch
  changes), torch's global grad mode and the warnings issued. \<open>forward_grad_log\<close> is a
  ghost field: the grad mode in force at each call of the detector, in order, so that
  statements can speak about it.
\<close>

record session =
  sess_model :: detector
  grad_enabled :: bool
  warnings_log :: "string list"
  forward_grad_log :: "bool list"

text \<open>
  \<^verbatim>\<open>torch.set_grad_enabled(b)\<close>, and \<^verbatim>\<open>with torch.no_grad():\<close>, which remembers the
  mode, disables it, and sets the remembered mode again when the block is left, by return
  or by exception.
\<close>

definition set_grad_enabled :: "bool \<Rightarrow> session \<Rightarrow> session" where
  "set_grad_enabled b s = s\<lparr>grad_enabled := b\<rparr>"

definition no_grad :: "(session \<Rightarrow> 'a \<times> session) \<Rightarrow> session \<Rightarrow> 'a \<times> session" where
  "no_grad body s =
     (let prev = grad_enabled s;
          (r, s) = body (set_grad_enabled False s)
      in (r, set_grad_enabled prev s))"

text \<open>\<^verbatim>\<open>next(model.parameters())\<close> and its \<^verbatim>\<open>device\<close>, \<^verbatim>\<open>is_cuda\<close>.\<close>

definition next_parameter :: "detector \<Rightarrow> error + device" where
  "next_parameter model = (case param_devices model of [] \<Rightarrow> Inl StopIteration | d # _ \<Rightarrow> Inr d)"

definition is_cuda :: "device \<Rightarrow> bool" where
  "is_cuda d = (case d of Cuda _ \<Rightarrow> True | Cpu \<Rightarrow> False)"

text \<open>
  \<^verbatim>\<open>Compose([LoadImage()] + cfg.data.test.pipeline[1:])\<close>, then the call on
  \<^verbatim>\<open>dict(img=img)\<close> and \<^verbatim>\<open>collate\<close>.
\<close>

definition load_and_collate :: "env \<Rightarrow> config \<Rightarrow> pyval \<Rightarrow> error + collated" where
  "load_and_collate e c img =
     (case compose e (drop 1 (test_pipeline c)) of
        Inl err \<Rightarrow> Inl err
      | Inr rest \<Rightarrow>
          (case LoadImage_call (imread e) [''img'' \<mapsto> img] of
             Inl err \<Rightarrow> Inl err
           | Inr data \<Rightarrow>
               (case rest data of
                  Inl err \<Rightarrow> Inl err
                | Inr data \<Rightarrow> collate e data)))"

text \<open>
  Lines 103 to 108, the loop over \<^verbatim>\<open>model.modules()\<close>. It stops at a module of the two
  classes that has no \<^verbatim>\<open>aligned\<close>; the modules before it stay changed.
\<close>

fun patch_modules :: "module list \<Rightarrow> error option \<times> module list" where
  "patch_modules [] = (None, [])"
| "patch_modules (m # ms) =
     (if is_roi m then
        (case aligned m of
           None \<Rightarrow> (Some (AttributeError ''aligned''), m # ms)
         | Some a \<Rightarrow>
             (let m = (if \<not> a then m\<lparr>use_torchvision := True\<rparr> else m);
                  (err, ms) = patch_modules ms
              in (err, m # ms)))
      else (let (err, ms) = patch_modules ms in (err, m # ms)))"

text \<open>Lines 89 to 111.\<close>

definition prepare :: "env \<Rightarrow> pyval \<Rightarrow> session \<Rightarrow> (error + config \<times> batch) \<times> session" where
  "prepare e img s =
     (case cfg (sess_model s) of
        None \<Rightarrow> (Inl (AttributeError ''cfg''), s)
      | Some c \<Rightarrow>
     (case next_parameter (sess_model s) of
        Inl err \<Rightarrow> (Inl err, s)
      | Inr dev \<Rightarrow>
     (case load_and_collate e c img of
        Inl err \<Rightarrow> (Inl err, s)
      | Inr data \<Rightarrow>
     (case next_parameter (sess_model s) of
        Inl err \<Rightarrow> (Inl err, s)
      | Inr p \<Rightarrow>
          if is_cuda p then
            (case scatter e data dev of
               Inl err \<Rightarrow> (Inl err, s)
             | Inr data \<Rightarrow> (Inr (c, data), s))
          else
            (let (err, ms) = patch_modules (modules (sess_model s));
                 s = s\<lparr>sess_model := (sess_model s)\<lparr>modules := ms\<rparr>\<rparr>
             in case err of
                  Some err \<Rightarrow> (Inl err, s)
                | None \<Rightarrow>
                    (let s = s\<lparr>warnings_log :=
                                  warnings_log s @ [''We set use_torchvision=True in CPU mode.'']\<rparr>
                     in case c_img_metas data of
                          [] \<Rightarrow> (Inl IndexError, s)
                        | DataContainer d # _ \<Rightarrow>
                            (Inr (c, \<lparr>b_img = c_img data, b_img_metas = d\<rparr>), s)))))))"

text \<open>A call of the detector, which sees the grad mode in force.\<close>

definition call_model :: "(detector \<Rightarrow> bool \<Rightarrow> 'a \<Rightarrow> error + 'b) \<Rightarrow> 'a \<Rightarrow> session \<Rightarrow> (error + 'b) \<times> session" where
  "call_model form args s =
     (form (sess_model s) (grad_enabled s) args,
      s\<lparr>forward_grad_log := forward_grad_log s @ [grad_enabled s]\<rparr>)"

text \<open>Lines 115 to 161, the body of the \<^verbatim>\<open>with\<close> block and the returned pair.\<close>

definition forward_and_score ::
  "env \<Rightarrow> config \<Rightarrow> batch \<Rightarrow> session \<Rightarrow> (error + pyval \<times> scalar) \<times> session" where
  "forward_and_score e c data s =
     (case b_img data of
        [] \<Rightarrow> (Inl IndexError, s)
      | t # ts \<Rightarrow>
     (case cuda e t of
        Inl err \<Rightarrow> (Inl err, s)
      | Inr t \<Rightarrow>
     (let data = data\<lparr>b_img := t # ts\<rparr>;
          data = \<lparr>kw_x = b_img data, kw_img_metas = b_img_metas data\<rparr>
      in case call_model forward_result data s of
           (Inl err, s) \<Rightarrow> (Inl err, s)
         | (Inr result, s) \<Rightarrow>
      (case call_model forward_heads data s of
           (Inl err, s) \<Rightarrow> (Inl err, s)
         | (Inr (y_head_f_1, y_head_f_2, y_head_cls), s) \<Rightarrow>
      (case uncertainty c y_head_f_1 y_head_f_2 of
           Inl err \<Rightarrow> (Inl err, s)
         | Inr uncertainty_single' \<Rightarrow> (Inr (result, uncertainty_single'), s))))))"

definition inference_detector :: "env \<Rightarrow> pyval \<Rightarrow> session \<Rightarrow> (error + pyval \<times> scalar) \<times> session" where
  "inference_detector e img s =
     (case prepare e img s of
        (Inl err, s) \<Rightarrow> (Inl err, s)
      | (Inr (c, data), s) \<Rightarrow> no_grad (forward_and_score e c data) s)"

text \<open>Lines 175 to 183 of \<open>async_inference_detector\<close>.\<close>

definition async_prepare :: "env \<Rightarrow> pyval \<Rightarrow> session \<Rightarrow> error + batch" where
  "async_prepare e img s =
     (case cfg (sess_model s) of
        None \<Rightarrow> Inl (AttributeError ''cfg'')
      | Some c \<Rightarrow>
     (case next_parameter (sess_model s) of
        Inl err \<Rightarrow> Inl err
      | Inr dev \<Rightarrow>
     (case load_and_collate e c img of
        Inl err \<Rightarrow> Inl err
      | Inr data \<Rightarrow> scatter e data dev)))"

text \<open>
  \<open>async_inference_detector\<close>, run to completion on its own: the grad mode is switched
  off and the awaited call is made; nothing follows it but the return.
\<close>

definition async_inference_detector :: "env \<Rightarrow> pyval \<Rightarrow> session \<Rightarrow> (error + pyval) \<times> session" where
  "async_inference_detector e img s =
     (case async_prepare e img s of
        Inl err \<Rightarrow> (Inl err, s)
      | Inr data \<Rightarrow>
          (let s = set_grad_enabled False s
           in call_model aforward_test data s))"

section \<open>Reference formulas\<close>

text \<open>
  The five formulas as the specification words them, on one pair of entries, and the mean
  over the feature dimension of a formula applied entry by entry: the sum of the row
  divided by its length. The functions above,
  which follow the tensor operations of the code, are compared with these.
\<close>

definition l2_norm_formula :: "real \<Rightarrow> real \<Rightarrow> real" where
  "l2_norm_formula y1 y2 = (y1 - y2)\<^sup>2"

definition kl_divergence_formula :: "real \<Rightarrow> real \<Rightarrow> real" where
  "kl_divergence_formula y1 y2 = y1 * ln (y1 / y2)"

definition cross_entropy_formula :: "real \<Rightarrow> real \<Rightarrow> real" where
  "cross_entropy_formula y1 y2 = - (y1 * ln y2 + (1 - y1) * ln (1 - y2))"

definition js_divergence_formula :: "real \<Rightarrow> real \<Rightarrow> real" where
  "js_divergence_formula y1 y2 =
     (let m = (y1 + y2) / 2 in 0.5 * y1 * ln (y1 / m) + 0.5 * y2 * ln (y2 / m))"

definition focal_loss_formula :: "real \<Rightarrow> real \<Rightarrow> real" where
  "focal_loss_formula y1 y2 =
     (let alpha = 0.25; gamma = 2;
          p_t = y1 * y2 + (1 - y1) * (1 - y2)
      in (alpha * y1 + (1 - alpha) * (1 - y1)) * (1 - p_t) ^ gamma
           * cross_entropy_formula y1 y2)"

definition mean_over_features :: "(real \<Rightarrow> real \<Rightarrow> real) \<Rightarrow> tensor \<Rightarrow> tensor \<Rightarrow> scalar list" where
  "mean_over_features f y1 y2 =
     map2 (\<lambda>r1 r2. let v = map2 f r1 r2
                    in if v = [] then NaN else Val (sum_list v / real (length v))) y1 y2"

text \<open>The \<open>n\<close> largest entries of a vector: the first \<open>n\<close> of its descending sort.\<close>

definition k_largest :: "nat \<Rightarrow> real list \<Rightarrow> real list" where
  "k_largest n v = take n (rev (sort v))"

text \<open>
  What the sigmoid produces over the reals: every entry lies strictly between 0 and 1.
  The feature dimension is not empty.
\<close>

definition unit_entries :: "tensor \<Rightarrow> bool" where
  "unit_entries y = (\<forall>r \<in> set y. r \<noteq> [] \<and> (\<forall>x \<in> set r. 0 < x \<and> x < 1))"

section \<open>A concrete environment\<close>

text \<open>
  Libraries, a configuration, a detector and a session on which the statements below are
  instantiated. \<open>demo_env\<close> takes whether the host has a CUDA device.
\<close>

definition demo_imread :: "pyval \<Rightarrow> error + image option" where
  "demo_imread v =
     (case v of
        PStr p \<Rightarrow> Inr (Some \<lparr>shape = [2, 3, 3], pixels = 7\<rparr>)
      | PArray sh n \<Rightarrow> Inr (Some \<lparr>shape = sh, pixels = n\<rparr>)
      | _ \<Rightarrow> Inl (TypeError ''img''))"

definition demo_config :: config where
  "demo_config =
     \<lparr>model_cfg = Map.empty, test_cfg = PNone, test_pipeline = [],
      uncertainty_type = ''l2_norm'', k = 1\<rparr>"

definition demo_detector :: "device \<Rightarrow> detector" where
  "demo_detector d =
     \<lparr>cfg = Some demo_config, CLASSES = None, param_devices = [d],
      modules = [\<lparr>is_roi = True, aligned = Some False, use_torchvision = False\<rparr>],
      forward_result = (\<lambda>g kw. Inr (PList [])),
      forward_heads = (\<lambda>g kw. Inr ([[[0, 0]], [[0, 0]]], [[[0, 0]], [[0, 0]]], [])),
      aforward_test = (\<lambda>g b. Inr (PList []))\<rparr>"

definition demo_env :: "bool \<Rightarrow> env" where
  "demo_env cuda_available =
     \<lparr>fromfile = (\<lambda>p. Inr demo_config),
      build_detector = (\<lambda>m t. Inr ((demo_detector Cpu)\<lparr>cfg := None\<rparr>)),
      load_checkpoint = (\<lambda>m p l. Inr (m, \<lparr>meta = Some Map.empty\<rparr>)),
      get_classes = (\<lambda>n. PList []),
      to_device = (\<lambda>m d. Inr m),
      eval_mode = (\<lambda>m. m),
      imread = demo_imread,
      compose = (\<lambda>ps. Inr (\<lambda>d. Inr d)),
      collate = (\<lambda>d. Inr \<lparr>c_img = [ImgTensor Cpu 0], c_img_metas = [DataContainer PNone]\<rparr>),
      scatter = (\<lambda>c dev. Inr \<lparr>b_img = c_img c, b_img_metas = PList []\<rparr>),
      cuda = (\<lambda>t. if cuda_available
                   then (case t of ImgTensor d n \<Rightarrow> Inr (ImgTensor (Cuda 0) n))
                   else Inl (External ''no CUDA device''))\<rparr>"

definition demo_session :: "device \<Rightarrow> session" where
  "demo_session d =
     \<lparr>sess_model = demo_detector d, grad_enabled = True,
      warnings_log = [], forward_grad_log = []\<rparr>"


section \<open>Elementwise operations on two tensors of one shape\<close>

lemma map2_map2:
  "map2 f (map2 g xs ys) (map2 h xs ys) = map2 (\<lambda>x y. f (g x y) (h x y)) xs ys"
  by (induction xs ys rule: list_induct2') simp_all

lemma map_map2: "map f (map2 g xs ys) = map2 (\<lambda>x y. f (g x y)) xs ys"
  by (induction xs ys rule: list_induct2') simp_all

lemma t_binop_binop:
  "t_binop f (t_binop g a b) (t_binop h a b) = t_binop (\<lambda>x y. f (g x y) (h x y)) a b"
  by (simp add: t_binop_def map2_map2)

lemma t_map_binop: "t_map f (t_binop g a b) = t_binop (\<lambda>x y. f (g x y)) a b"
  by (auto simp: t_binop_def t_map_def map_map2)

lemma mean_over_features_mean:
  "mean_over_features f y1 y2 = map2 (\<lambda>r1 r2. mean (map2 f r1 r2)) y1 y2"
  by (simp add: mean_over_features_def mean_def Let_def)

lemma mean_dim1_binop: "mean_dim1 (t_binop f a b) = mean_over_features f a b"
  by (auto simp: mean_dim1_def t_binop_def mean_over_features_mean map_map2)

lemma map2_fst: "length xs = length ys \<Longrightarrow> map2 (\<lambda>x y. x) xs ys = xs"
  by (induction xs ys rule: list_induct2) simp_all

lemma map2_snd: "length xs = length ys \<Longrightarrow> map2 (\<lambda>x y. y) xs ys = ys"
  by (induction xs ys rule: list_induct2) simp_all

lemma t_binop_fst: "same_shape a b \<Longrightarrow> t_binop (\<lambda>x y. x) a b = a"
proof (induction a arbitrary: b)
  case Nil
  then show ?case by (simp add: t_binop_def)
next
  case (Cons r a)
  then obtain s b' where b: "b = s # b'"
    by (cases b) (auto simp: same_shape_def)
  with Cons.prems have "length r = length s" "same_shape a b'"
    by (simp_all add: same_shape_def)
  with Cons.IH [of b'] b show ?case
    by (simp add: t_binop_def map2_fst)
qed

lemma t_binop_snd: "same_shape a b \<Longrightarrow> t_binop (\<lambda>x y. y) a b = b"
proof (induction a arbitrary: b)
  case Nil
  then show ?case by (simp add: t_binop_def same_shape_def)
next
  case (Cons r a)
  then obtain s b' where b: "b = s # b'"
    by (cases b) (auto simp: same_shape_def)
  with Cons.prems have "length r = length s" "same_shape a b'"
    by (simp_all add: same_shape_def)
  with Cons.IH [of b'] b show ?case
    by (simp add: t_binop_def map2_snd)
qed

lemma same_shape_refl: "same_shape y y"
  by (simp add: same_shape_def)

lemmas t_ops = t_add_def t_sub_def t_mul_def t_div_def t_log_def t_neg_def t_pow_def
  t_rsub_def t_smul_def t_sdiv_def kl_diver_def ones_like_def

section \<open>The branches of the dispatch against the reference formulas\<close>

text \<open>
  Each branch is first computed on two tensors that are themselves elementwise functions
  of a common pair \<open>a\<close>, \<open>b\<close>; the two heads are the projections of the pair they form.
\<close>

lemma l2_binop:
  "uncertainty_all_N ''l2_norm'' (t_binop g a b) (t_binop h a b)
     = Inr (mean_over_features (\<lambda>x y. l2_norm_formula (g x y) (h x y)) a b)"
  by (simp add: uncertainty_all_N_def t_ops t_binop_binop t_map_binop Let_def)
    (simp add: mean_dim1_binop l2_norm_formula_def)

lemma kl_binop:
  "uncertainty_all_N ''kl_divergence'' (t_binop g a b) (t_binop h a b)
     = Inr (mean_over_features (\<lambda>x y. kl_divergence_formula (g x y) (h x y)) a b)"
  by (simp add: uncertainty_all_N_def t_ops t_binop_binop t_map_binop Let_def)
    (simp add: mean_dim1_binop kl_divergence_formula_def)

lemma ce_binop:
  "uncertainty_all_N ''cross_entropy'' (t_binop g a b) (t_binop h a b)
     = Inr (mean_over_features (\<lambda>x y. cross_entropy_formula (g x y) (h x y)) a b)"
  by (simp add: uncertainty_all_N_def t_ops t_binop_binop t_map_binop Let_def)
    (simp add: mean_dim1_binop cross_entropy_formula_def)

lemma js_binop:
  "uncertainty_all_N ''js_divergence'' (t_binop g a b) (t_binop h a b)
     = Inr (mean_over_features (\<lambda>x y. js_divergence_formula (g x y) (h x y)) a b)"
  by (simp add: uncertainty_all_N_def t_ops t_binop_binop t_map_binop Let_def)
    (simp add: mean_dim1_binop js_divergence_formula_def Let_def)

lemma focal_binop:
  "uncertainty_all_N ''focal_loss'' (t_binop g a b) (t_binop h a b)
     = Inr (mean_over_features (\<lambda>x y. focal_loss_formula (g x y) (h x y)) a b)"
  by (simp add: uncertainty_all_N_def t_ops t_binop_binop t_map_binop Let_def)
    (simp add: mean_dim1_binop focal_loss_formula_def cross_entropy_formula_def Let_def)

lemma l2_norm_branch:
  "same_shape y1 y2 \<Longrightarrow>
   uncertainty_all_N ''l2_norm'' y1 y2 = Inr (mean_over_features l2_norm_formula y1 y2)"
  using l2_binop [of "\<lambda>x y. x" y1 y2 "\<lambda>x y. y"] by (simp add: t_binop_fst t_binop_snd)

lemma kl_divergence_branch:
  "same_shape y1 y2 \<Longrightarrow>
   uncertainty_all_N ''kl_divergence'' y1 y2
     = Inr (mean_over_features kl_divergence_formula y1 y2)"
  using kl_binop [of "\<lambda>x y. x" y1 y2 "\<lambda>x y. y"] by (simp add: t_binop_fst t_binop_snd)

lemma cross_entropy_branch:
  "same_shape y1 y2 \<Longrightarrow>
   uncertainty_all_N ''cross_entropy'' y1 y2
     = Inr (mean_over_features cross_entropy_formula y1 y2)"
  using ce_binop [of "\<lambda>x y. x" y1 y2 "\<lambda>x y. y"] by (simp add: t_binop_fst t_binop_snd)

lemma js_divergence_branch:
  "same_shape y1 y2 \<Longrightarrow>
   uncertainty_all_N ''js_divergence'' y1 y2
     = Inr (mean_over_features js_divergence_formula y1 y2)"
  using js_binop [of "\<lambda>x y. x" y1 y2 "\<lambda>x y. y"] by (simp add: t_binop_fst t_binop_snd)

lemma focal_loss_branch:
  "same_shape y1 y2 \<Longrightarrow>
   uncertainty_all_N ''focal_loss'' y1 y2 = Inr (mean_over_features focal_loss_formula y1 y2)"
  using focal_binop [of "\<lambda>x y. x" y1 y2 "\<lambda>x y. y"] by (simp add: t_binop_fst t_binop_snd)

text \<open>
  C1. For two heads of one shape, each of the five names selects its formula: the squared
  difference, \<open>y1 * ln (y1 / y2)\<close>, the binary cross-entropy, the Jensen-Shannon
  expression with the midpoint \<open>m\<close>, and the cross-entropy weighted with \<open>alpha = 0.25\<close> and
  \<open>gamma = 2\<close>; and the per-sample value is the mean of the formula over the feature
  dimension, the sum of the row divided by its length.
\<close>

theorem uncertainty_formulas:
  assumes "same_shape y1 y2"
  shows "uncertainty_all_N ''l2_norm'' y1 y2
           = Inr (mean_over_features l2_norm_formula y1 y2)
       \<and> uncertainty_all_N ''kl_divergence'' y1 y2
           = Inr (mean_over_features kl_divergence_formula y1 y2)
       \<and> uncertainty_all_N ''cross_entropy'' y1 y2
           = Inr (mean_over_features cross_entropy_formula y1 y2)
       \<and> uncertainty_all_N ''js_divergence'' y1 y2
           = Inr (mean_over_features js_divergence_formula y1 y2)
       \<and> uncertainty_all_N ''focal_loss'' y1 y2
           = Inr (mean_over_features focal_loss_formula y1 y2)"
  using assms
  by (simp add: l2_norm_branch kl_divergence_branch cross_entropy_branch
      js_divergence_branch focal_loss_branch)

theorem uncertainty_formulas_witness:
  "same_shape [[1/2, 1/4]] [[1/2, 3/4]]
   \<and> uncertainty_all_N ''l2_norm'' [[1/2, 1/4]] [[1/2, 3/4]] = Inr [Val (1/8)]
   \<and> uncertainty_all_N ''focal_loss'' [[1/2, 1/4]] [[1/2, 3/4]]
       = Inr [Val ((ln 2 / 8 + 5/8 * (5/8)\<^sup>2 * - (1/4 * ln (3/4) + 3/4 * ln (1/4))) / 2)]"
  using uncertainty_formulas [of "[[1/2, 1/4]]" "[[1/2, 3/4]]"]
  by (simp add: same_shape_def mean_over_features_def mean_def l2_norm_formula_def
      focal_loss_formula_def cross_entropy_formula_def Let_def power2_eq_square ln_div)

section \<open>The dispatch on an unknown name\<close>

lemma sublist_join_comma:
  "n \<in> set ss \<Longrightarrow> sublist (quoted n) (join_comma (map quoted ss))"
proof (induction ss rule: join_comma.induct)
  case 1
  then show ?case by simp
next
  case (2 s)
  then show ?case by simp
next
  case (3 s t ss)
  have eq: "join_comma (map quoted (s # t # ss))
              = (quoted s @ '', '') @ join_comma (map quoted (t # ss))"
    by simp
  show ?case
  proof (cases "n = s")
    case True
    have "sublist (quoted s) ([] @ quoted s @ ('', '' @ join_comma (map quoted (t # ss))))"
      by (rule sublist_appendI)
    with True show ?thesis by (simp only: eq append_Nil append_assoc)
  next
    case False
    with 3 have "sublist (quoted n) (join_comma (map quoted (t # ss)))"
      by simp
    moreover have "sublist (join_comma (map quoted (t # ss)))
                     ((quoted s @ '', '') @ join_comma (map quoted (t # ss)))"
      by (rule sublist_append_leftI)
    ultimately have "sublist (quoted n)
                       ((quoted s @ '', '') @ join_comma (map quoted (t # ss)))"
      by (rule sublist_order.order_trans)
    then show ?thesis by (simp only: eq)
  qed
qed

lemma message_lists_names:
  assumes "n \<in> set uncertainty_types"
  shows "sublist (quoted n) (invalid_type_message ty)"
proof -
  let ?j = "join_comma (map quoted uncertainty_types)"
  let ?pre = "ty @ '' is not valid uncertainty_type. '' @
              ''List of possible uncertainty_type: '' @ ''[''"
  let ?post = "'']'' @ ''. Change it in config parameters.''"
  have "invalid_type_message ty = ?pre @ ?j @ ?post"
    by (simp add: invalid_type_message_def str_of_list_def)
  moreover have "sublist ?j (?pre @ ?j @ ?post)"
    by (rule sublist_appendI)
  moreover have "sublist (quoted n) ?j"
    using assms by (rule sublist_join_comma)
  ultimately show ?thesis
    by (metis sublist_order.order_trans)
qed

lemma message_text:
  "invalid_type_message ty =
     ty @ '' is not valid uncertainty_type. List of possible uncertainty_type: ['l2_norm', 'kl_divergence', 'cross_entropy', 'js_divergence', 'focal_loss']. Change it in config parameters.''"
  by (simp add: invalid_type_message_def str_of_list_def uncertainty_types_def quoted_def)

lemma unknown_name_raises:
  "ty \<notin> set uncertainty_types \<Longrightarrow>
   uncertainty_all_N ty y1 y2 = Inl (ValueError (invalid_type_message ty))"
  by (simp add: uncertainty_all_N_def uncertainty_types_def)

lemma known_name_returns:
  "ty \<in> set uncertainty_types \<Longrightarrow> \<exists>u. uncertainty_all_N ty y1 y2 = Inr u"
  by (auto simp: uncertainty_all_N_def uncertainty_types_def Let_def)

text \<open>
  C3. A name outside the five makes the dispatch raise \<^verbatim>\<open>ValueError\<close>; the message
  starts with the offending name and holds each of the five valid names, in quotes, as
  the printed list does. A name among the five makes it return, with no error.
\<close>

theorem unknown_uncertainty_type:
  "(ty \<notin> set uncertainty_types \<longrightarrow>
      uncertainty_all_N ty y1 y2 = Inl (ValueError (invalid_type_message ty))
      \<and> prefix ty (invalid_type_message ty)
      \<and> (\<forall>n \<in> set uncertainty_types. sublist (quoted n) (invalid_type_message ty))
      \<and> invalid_type_message ty =
          ty @ '' is not valid uncertainty_type. List of possible uncertainty_type: ['l2_norm', 'kl_divergence', 'cross_entropy', 'js_divergence', 'focal_loss']. Change it in config parameters.'')
   \<and> (ty \<in> set uncertainty_types \<longrightarrow> (\<exists>u. uncertainty_all_N ty y1 y2 = Inr u))"
proof (intro conjI impI ballI)
  assume "ty \<notin> set uncertainty_types"
  then show "uncertainty_all_N ty y1 y2 = Inl (ValueError (invalid_type_message ty))"
    by (rule unknown_name_raises)
next
  show "prefix ty (invalid_type_message ty)"
    by (simp add: invalid_type_message_def)
next
  fix n assume "n \<in> set uncertainty_types"
  then show "sublist (quoted n) (invalid_type_message ty)"
    by (rule message_lists_names)
next
  show "invalid_type_message ty =
          ty @ '' is not valid uncertainty_type. List of possible uncertainty_type: ['l2_norm', 'kl_divergence', 'cross_entropy', 'js_divergence', 'focal_loss']. Change it in config parameters.''"
    by (rule message_text)
next
  assume "ty \<in> set uncertainty_types"
  then show "\<exists>u. uncertainty_all_N ty y1 y2 = Inr u"
    by (rule known_name_returns)
qed

theorem unknown_uncertainty_type_witness:
  "uncertainty_all_N ''entropy'' [[1/2]] [[1/4]] =
     Inl (ValueError ''entropy is not valid uncertainty_type. List of possible uncertainty_type: ['l2_norm', 'kl_divergence', 'cross_entropy', 'js_divergence', 'focal_loss']. Change it in config parameters.'')
   \<and> sublist ''focal_loss'' (invalid_type_message ''entropy'')
   \<and> ''kl_divergence'' \<in> set uncertainty_types
   \<and> uncertainty_all_N ''kl_divergence'' [[1/2]] [[1/4]] = Inr [Val (ln 2 / 2)]"
proof -
  have a: "''entropy'' \<notin> set uncertainty_types" and b: "''kl_divergence'' \<in> set uncertainty_types"
    and c: "''focal_loss'' \<in> set uncertainty_types"
    by (simp_all add: uncertainty_types_def)
  have "sublist ''focal_loss'' (quoted ''focal_loss'')"
    using sublist_appendI [of "''focal_loss''" "[CHR 0x27]" "[CHR 0x27]"]
    by (simp only: quoted_def)
  moreover have "sublist (quoted ''focal_loss'') (invalid_type_message ''entropy'')"
    using unknown_uncertainty_type [of "''entropy''" "[[1/2]]" "[[1/4]]"] a c by blast
  ultimately have d: "sublist ''focal_loss'' (invalid_type_message ''entropy'')"
    by (rule sublist_order.order_trans)
  have e: "uncertainty_all_N ''kl_divergence'' [[1/2]] [[1/4]] = Inr [Val (ln 2 / 2)]"
    by (simp add: uncertainty_all_N_def t_ops t_binop_def t_map_def mean_dim1_def mean_def)
  from unknown_uncertainty_type [of "''entropy''" "[[1/2]]" "[[1/4]]"] a
  have "uncertainty_all_N ''entropy'' [[1/2]] [[1/4]] =
     Inl (ValueError ''entropy is not valid uncertainty_type. List of possible uncertainty_type: ['l2_norm', 'kl_divergence', 'cross_entropy', 'js_divergence', 'focal_loss']. Change it in config parameters.'')"
    by simp
  with b d e show ?thesis by simp
qed


section \<open>Top-k aggregation: what the indices gather\<close>

lemma map_insort_key_comp:
  "map f (insort_key (\<lambda>x. g (f x)) x ys) = insort_key g (f x) (map f ys)"
  by (induction ys) simp_all

lemma map_sort_key_comp:
  "map f (sort_key (\<lambda>x. g (f x)) xs) = sort_key g (map f xs)"
  by (induction xs) (simp_all add: map_insort_key_comp)

lemma gather_argsort: "map (\<lambda>i. u ! i) (argsort u) = sort u"
  using map_sort_key_comp [of "\<lambda>i. u ! i" "\<lambda>x. x" "[0..<length u]"]
  by (simp add: argsort_def map_nth)

lemma set_argsort: "set (argsort u) = {0..<length u}"
  by (simp add: argsort_def)

lemma length_argsort: "length (argsort u) = length u"
  by (simp add: argsort_def)

lemma slice_from_map: "slice_from (map f xs) s = map f (slice_from xs s)"
  by (simp add: slice_from_def Let_def drop_map)

lemma set_slice_from: "set (slice_from xs s) \<subseteq> set xs"
  by (simp add: slice_from_def Let_def set_drop_subset)

lemma index_by_slice_argsort:
  "index_by u (slice_from (argsort u) s) = Inr (slice_from (sort u) s)"
proof -
  have "\<forall>i \<in> set (slice_from (argsort u) s). i < length u"
    using set_slice_from [of "argsort u" s] by (auto simp: set_argsort)
  then have "index_by u (slice_from (argsort u) s)
             = Inr (map (\<lambda>i. u ! i) (slice_from (argsort u) s))"
    by (simp add: index_by_def)
  also have "map (\<lambda>i. u ! i) (slice_from (argsort u) s) = slice_from (sort u) s"
    by (simp add: slice_from_map [symmetric] gather_argsort)
  finally show ?thesis .
qed

lemma uncertainty_single_sort:
  "uncertainty_single kk u = Inr (mean_all (slice_from (sort u) (- kk)))"
  by (simp add: uncertainty_single_def index_by_slice_argsort)

lemma sorted_map_Val: "sorted (map Val xs) = sorted xs"
  by (induction xs) auto

lemma sort_map_Val: "sort (map Val v) = map Val (sort v)"
  by (rule properties_for_sort) (simp_all add: sorted_map_Val)

lemma mean_all_map_Val: "mean_all (map Val ws) = mean ws"
  by (auto simp: mean_all_def comp_def)

lemma mean_all_mset:
  assumes "mset us = mset vs"
  shows "mean_all us = mean_all vs"
proof -
  have s: "set us = set vs" using assms by (rule mset_eq_setD)
  have l: "length us = length vs" using assms by (rule mset_eq_length)
  have "mset (map the_val us) = mset (map the_val vs)" using assms by simp
  then have "sum_mset (mset (map the_val us)) = sum_mset (mset (map the_val vs))" by simp
  then have m: "sum_list (map the_val us) = sum_list (map the_val vs)"
    by (simp only: sum_mset_sum_list)
  from l have e: "(us = []) = (vs = [])" by auto
  show ?thesis using s l m e by (simp add: mean_all_def mean_def)
qed

lemma slice_from_neg:
  "1 \<le> kk \<Longrightarrow> kk \<le> int (length xs) \<Longrightarrow> slice_from xs (- kk) = drop (length xs - nat kk) xs"
  by (simp add: slice_from_def Let_def nat_diff_distrib' max_def)

lemma slice_from_all: "int (length xs) \<le> kk \<or> kk = 0 \<Longrightarrow> slice_from xs (- kk) = xs"
  by (auto simp add: slice_from_def Let_def)

lemma sum_list_rev_real: "sum_list (rev xs) = sum_list (xs :: real list)"
  by (induction xs) simp_all

text \<open>
  C2. For a vector of \<open>N\<close> numbers and \<open>1 \<le> k \<le> N\<close>, the scalar returned is the
  arithmetic mean of the \<open>k\<close> largest entries: the last \<open>k\<close> indices of the ascending
  argsort gather exactly them.
\<close>

theorem top_k_mean:
  assumes "1 \<le> kk" and "kk \<le> int (length v)"
  shows "uncertainty_single kk (map Val v)
           = Inr (Val (sum_list (k_largest (nat kk) v) / real (nat kk)))"
proof -
  let ?d = "drop (length v - nat kk) (sort v)"
  have len: "length ?d = nat kk" using assms by simp
  have ne: "?d \<noteq> []" using len assms by auto
  have "slice_from (sort (map Val v)) (- kk) = map Val ?d"
    using assms by (simp add: sort_map_Val slice_from_neg drop_map)
  then have "uncertainty_single kk (map Val v) = Inr (mean ?d)"
    by (simp add: uncertainty_single_sort mean_all_map_Val)
  moreover have "k_largest (nat kk) v = rev ?d"
    by (simp add: k_largest_def take_rev)
  ultimately show ?thesis
    using len ne by (simp add: mean_def sum_list_rev_real)
qed

theorem top_k_mean_witness:
  "(1::int) \<le> 2 \<and> (2::int) \<le> int (length [3, 1, 2 :: real])
   \<and> k_largest 2 [3, 1, 2] = [3, 2]
   \<and> uncertainty_single 2 [Val 3, Val 1, Val 2] = Inr (Val (5 / 2))"
  using top_k_mean [of 2 "[3, 1, 2]"] by (simp add: k_largest_def)

text \<open>
  C5. Reordering the per-sample values does not change the scalar: two vectors with the
  same entries, counted with multiplicity, aggregate to the same top-k mean, for every
  \<open>k\<close>.
\<close>

theorem top_k_permutation_invariant:
  assumes "mset u = mset u'"
  shows "uncertainty_single kk u = uncertainty_single kk u'"
proof -
  have "sort u = sort u'"
    using assms by (intro properties_for_sort) simp_all
  then show ?thesis by (simp add: uncertainty_single_sort)
qed

theorem top_k_permutation_invariant_witness:
  "mset [Val 3, Val 1, Val 2] = mset [Val 1, Val 2, Val 3]
   \<and> uncertainty_single 2 [Val 3, Val 1, Val 2] = Inr (Val (5 / 2))
   \<and> uncertainty_single 2 [Val 1, Val 2, Val 3] = Inr (Val (5 / 2))"
proof -
  have m: "mset [Val 3, Val 1, Val 2] = mset [Val 1, Val 2, Val 3]"
    by (simp add: add_mset_commute)
  have "uncertainty_single 2 [Val 3, Val 1, Val 2] = Inr (Val (5 / 2))"
    by (simp add: uncertainty_single_def argsort_def slice_from_def index_by_def
        mean_all_def mean_def)
  with m top_k_permutation_invariant [OF m, of 2] show ?thesis by simp
qed

text \<open>
  C9. When \<open>k\<close> is at least the number \<open>N\<close> of per-sample values, and also when \<open>k = 0\<close>,
  the slice \<^verbatim>\<open>arg[-k:]\<close> is the whole of \<^verbatim>\<open>arg\<close>, all \<open>N\<close> indices; no error is raised,
  and the scalar is the mean over all samples.
\<close>

theorem k_out_of_range_selects_all:
  assumes "int (length u) \<le> kk \<or> kk = 0"
  shows "slice_from (argsort u) (- kk) = argsort u
       \<and> set (slice_from (argsort u) (- kk)) = {0..<length u}
       \<and> length (slice_from (argsort u) (- kk)) = length u
       \<and> uncertainty_single kk u = Inr (mean_all u)"
proof -
  have 1: "slice_from (argsort u) (- kk) = argsort u"
    using assms by (intro slice_from_all) (simp add: length_argsort)
  have "slice_from (sort u) (- kk) = sort u"
    using assms by (intro slice_from_all) simp
  moreover have "mean_all (sort u) = mean_all u"
    by (rule mean_all_mset) simp
  ultimately have "uncertainty_single kk u = Inr (mean_all u)"
    by (simp add: uncertainty_single_sort)
  with 1 show ?thesis by (simp add: set_argsort length_argsort)
qed

theorem k_out_of_range_selects_all_witness:
  "int (length [Val 3, Val 1, Val 2]) \<le> 5
   \<and> slice_from (argsort [Val 3, Val 1, Val 2]) (- 5) = [1, 2, 0]
   \<and> uncertainty_single 5 [Val 3, Val 1, Val 2] = Inr (Val 2)
   \<and> slice_from (argsort [Val 3, Val 1, Val 2]) (- 0) = [1, 2, 0]
   \<and> uncertainty_single 0 [Val 3, Val 1, Val 2] = Inr (Val 2)"
proof -
  have a: "argsort [Val 3, Val 1, Val 2] = [1, 2, 0]"
    by (simp add: argsort_def)
  have m: "mean_all [Val 3, Val 1, Val 2] = Val 2"
    by (simp add: mean_all_def mean_def)
  from k_out_of_range_selects_all [of "[Val 3, Val 1, Val 2]" 5]
       k_out_of_range_selects_all [of "[Val 3, Val 1, Val 2]" 0] a m
  show ?thesis by simp
qed


section \<open>Identical heads\<close>

text \<open>The heads that reach the formulas have passed the sigmoid.\<close>

lemma sigmoid_unit: "0 < sigmoid x \<and> sigmoid x < 1"
proof -
  have e: "0 < exp (- x)" by simp
  then have p: "0 < 1 + exp (- x)" by (simp add: add_pos_pos)
  then have "0 < 1 / (1 + exp (- x))" by simp
  moreover from e p have "1 / (1 + exp (- x)) < 1" by (simp add: divide_less_eq_1)
  ultimately show ?thesis by (simp add: sigmoid_def)
qed

lemma unit_entries_sigmoid:
  assumes "\<forall>r \<in> set t. r \<noteq> []"
  shows "unit_entries (t_sigmoid t)"
  using assms by (auto simp: unit_entries_def t_sigmoid_def t_map_def sigmoid_unit)

lemma mean_over_features_same:
  "mean_over_features f y y = map (\<lambda>r. mean (map (\<lambda>x. f x x) r)) y"
  by (simp add: mean_over_features_mean zip_same_conv_map comp_def)

lemma mean_zero:
  assumes "r \<noteq> []" and "\<And>x. x \<in> set r \<Longrightarrow> g x = 0"
  shows "mean (map g r) = Val 0"
proof -
  from assms(2) have "sum_list (map g r) = 0" by (induction r) simp_all
  with assms(1) show ?thesis by (simp add: mean_def)
qed

lemma zero_per_sample:
  assumes "unit_entries y" and "\<And>x. 0 < x \<Longrightarrow> x < 1 \<Longrightarrow> f x x = 0"
  shows "mean_over_features f y y = replicate (length y) (Val 0)"
proof -
  have "mean (map (\<lambda>x. f x x) r) = Val 0" if "r \<in> set y" for r
    using assms that by (intro mean_zero) (auto simp: unit_entries_def)
  then have "map (\<lambda>r. mean (map (\<lambda>x. f x x) r)) y = map (\<lambda>r. Val 0) y"
    by simp
  then show ?thesis
    by (simp add: mean_over_features_same map_replicate_const)
qed

lemma l2_same: "l2_norm_formula x x = 0"
  by (simp add: l2_norm_formula_def)

lemma kl_same: "kl_divergence_formula x x = 0"
  by (simp add: kl_divergence_formula_def)

lemma js_same: "js_divergence_formula x x = 0"
  by (simp add: js_divergence_formula_def)

lemma half_less_ln2: "(1/2 :: real) < ln 2"
proof -
  have "exp (1/2 :: real) ^ 2 = exp 1" using exp_double [of "1/2 :: real"] by simp
  also have "\<dots> \<le> 3" by (rule exp_le)
  finally have "exp (1/2 :: real) ^ 2 < 2 ^ 2" by simp
  then have "exp (1/2 :: real) < 2" by (rule power2_less_imp_less) simp
  then have "ln (exp (1/2 :: real)) < ln 2" by (subst ln_less_cancel_iff) simp_all
  then show ?thesis by simp
qed

text \<open>
  C4, as stated, fails: with both heads equal to the one-entry tensor \<open>1/2\<close>, the
  \<^verbatim>\<open>'cross_entropy'\<close> value is \<open>ln 2\<close>, more than \<open>1/2\<close>, and the \<^verbatim>\<open>'focal_loss'\<close> value is
  \<open>ln 2 / 8\<close>; neither is zero.
\<close>

theorem identical_heads_counterexample:
  "uncertainty_all_N ''cross_entropy'' [[1/2]] [[1/2]] = Inr [Val (ln 2)]
   \<and> uncertainty_all_N ''focal_loss'' [[1/2]] [[1/2]] = Inr [Val (ln 2 / 8)]
   \<and> (1/2 :: real) < ln 2"
proof -
  have "ln (1/2 :: real) = - ln 2" by (simp add: ln_div)
  then show ?thesis
    using half_less_ln2
    by (simp add: uncertainty_all_N_def t_ops t_binop_def t_map_def mean_dim1_def mean_def
        Let_def power2_eq_square)
qed

text \<open>
  C4, amended. With the two heads identical, every entry strictly between 0 and 1 and a
  non-empty feature dimension, \<^verbatim>\<open>'l2_norm'\<close>, \<^verbatim>\<open>'kl_divergence'\<close> and
  \<^verbatim>\<open>'js_divergence'\<close> give zero for every sample. Nothing is said of
  \<^verbatim>\<open>'cross_entropy'\<close> and \<^verbatim>\<open>'focal_loss'\<close>.
\<close>

theorem identical_heads:
  assumes "unit_entries y"
  shows "uncertainty_all_N ''l2_norm'' y y = Inr (replicate (length y) (Val 0))
       \<and> uncertainty_all_N ''kl_divergence'' y y = Inr (replicate (length y) (Val 0))
       \<and> uncertainty_all_N ''js_divergence'' y y = Inr (replicate (length y) (Val 0))"
proof -
  note s = same_shape_refl [of y]
  have "mean_over_features l2_norm_formula y y = replicate (length y) (Val 0)"
    using assms by (rule zero_per_sample) (rule l2_same)
  moreover have "mean_over_features kl_divergence_formula y y = replicate (length y) (Val 0)"
    using assms by (rule zero_per_sample) (rule kl_same)
  moreover have "mean_over_features js_divergence_formula y y = replicate (length y) (Val 0)"
    using assms by (rule zero_per_sample) (rule js_same)
  ultimately show ?thesis
    by (simp add: l2_norm_branch [OF s] kl_divergence_branch [OF s]
        js_divergence_branch [OF s])
qed

theorem identical_heads_witness:
  "unit_entries [[1/2, 1/4], [1/3, 2/3]]
   \<and> uncertainty_all_N ''l2_norm'' [[1/2, 1/4], [1/3, 2/3]] [[1/2, 1/4], [1/3, 2/3]]
       = Inr [Val 0, Val 0]
   \<and> uncertainty_all_N ''kl_divergence'' [[1/2, 1/4], [1/3, 2/3]] [[1/2, 1/4], [1/3, 2/3]]
       = Inr [Val 0, Val 0]
   \<and> uncertainty_all_N ''js_divergence'' [[1/2, 1/4], [1/3, 2/3]] [[1/2, 1/4], [1/3, 2/3]]
       = Inr [Val 0, Val 0]
   \<and> unit_entries (t_sigmoid [[0, 1]])
   \<and> uncertainty_all_N ''kl_divergence'' (t_sigmoid [[0, 1]]) (t_sigmoid [[0, 1]])
       = Inr [Val 0]"
proof -
  have u: "unit_entries [[1/2, 1/4], [1/3, 2/3]]"
    by (simp add: unit_entries_def)
  have v: "unit_entries (t_sigmoid [[0, 1]])"
    by (rule unit_entries_sigmoid) simp
  have l: "length (t_sigmoid [[0, 1]]) = 1"
    by (simp add: t_sigmoid_def t_map_def)
  from identical_heads [OF u] identical_heads [OF v] u v l show ?thesis
    by (simp add: numeral_2_eq_2)
qed

section \<open>The type check of \<open>init_detector\<close>\<close>

lemma load_weights_calls:
  "load_weights e m checkpoint dev calls = (r, calls') \<Longrightarrow> \<exists>more. calls' = calls @ more"
  by (auto simp: load_weights_def Let_def split: option.splits sum.splits prod.splits)

lemma init_detector_calls:
  assumes "resolve_config e config calls = (Inr c, calls1)"
  shows "\<exists>r more. init_detector e config checkpoint dev calls
                  = (r, calls1 @ BuildDetector # more)"
proof -
  let ?c = "c\<lparr>model_cfg := (model_cfg c)(''pretrained'' \<mapsto> PNone)\<rparr>"
  show ?thesis
  proof (cases "build_detector e (model_cfg ?c) (test_cfg ?c)")
    case (Inl err)
    with assms show ?thesis
      by (simp add: init_detector_def Let_def)
  next
    case (Inr m)
    obtain r2 calls2 where lw: "load_weights e m checkpoint dev (calls1 @ [BuildDetector])
                                  = (r2, calls2)"
      by (cases "load_weights e m checkpoint dev (calls1 @ [BuildDetector])") blast
    then obtain more where more: "calls2 = (calls1 @ [BuildDetector]) @ more"
      using load_weights_calls by blast
    from assms Inr lw more show ?thesis
      by (auto simp: init_detector_def Let_def split: sum.splits)
  qed
qed

lemma init_detector_from_config:
  "\<exists>r more. init_detector e (ArgConfig c) checkpoint dev calls
              = (r, calls @ BuildDetector # more)"
  by (rule init_detector_calls) (simp add: resolve_config_def)

lemma init_detector_from_path:
  "\<exists>r more. init_detector e (ArgStr path) checkpoint dev calls
              = (r, calls @ Fromfile path # more)"
proof (cases "fromfile e path")
  case (Inl err)
  then show ?thesis
    by (simp add: init_detector_def resolve_config_def)
next
  case (Inr c)
  then have "resolve_config e (ArgStr path) calls = (Inr c, calls @ [Fromfile path])"
    by (simp add: resolve_config_def)
  from init_detector_calls [OF this, of checkpoint dev] show ?thesis
    by auto
qed

text \<open>
  C6. A \<^verbatim>\<open>config\<close> that is neither a string nor a \<^verbatim>\<open>Config\<close> makes \<open>init_detector\<close>
  raise \<^verbatim>\<open>TypeError\<close> with no call into the libraries: no configuration is read and no
  detector is built. A \<^verbatim>\<open>Config\<close> passes the check as it is, and a string passes it with
  whatever \<^verbatim>\<open>Config.fromfile\<close> gives; \<open>init_detector\<close> then goes on to
  \<^verbatim>\<open>build_detector\<close>, or to \<^verbatim>\<open>fromfile\<close> first.
\<close>

theorem config_type_check:
  "init_detector e (ArgOther ty) checkpoint dev calls
     = (Inl (TypeError (''config must be a filename or Config object, but got '' @ ty)), calls)
   \<and> resolve_config e (ArgConfig c) calls = (Inr c, calls)
   \<and> resolve_config e (ArgStr path) calls = (fromfile e path, calls @ [Fromfile path])
   \<and> (\<exists>r more. init_detector e (ArgConfig c) checkpoint dev calls
                  = (r, calls @ BuildDetector # more))
   \<and> (\<exists>r more. init_detector e (ArgStr path) checkpoint dev calls
                  = (r, calls @ Fromfile path # more))"
  using init_detector_from_config [of e c checkpoint dev calls]
    init_detector_from_path [of e path checkpoint dev calls]
  by (simp add: init_detector_def resolve_config_def)

section \<open>The dict returned by \<open>LoadImage\<close>\<close>

text \<open>
  C10. Whenever \<^verbatim>\<open>LoadImage.__call__\<close> returns, the returned dict has
  \<^verbatim>\<open>'img_shape'\<close> equal to \<^verbatim>\<open>'ori_shape'\<close>, both the shape of the loaded image, which is
  under \<^verbatim>\<open>'img'\<close>; \<^verbatim>\<open>'img_fields'\<close> is \<^verbatim>\<open>['img']\<close>; \<^verbatim>\<open>'filename'\<close> and
  \<^verbatim>\<open>'ori_filename'\<close> are the original string when the input \<^verbatim>\<open>'img'\<close> was a string,
  and \<^verbatim>\<open>None\<close> otherwise.
\<close>

theorem LoadImage_returned_dict:
  assumes "LoadImage_call rd results = Inr r"
  shows "r ''img_shape'' = r ''ori_shape''
       \<and> (\<exists>v img. results ''img'' = Some v \<and> rd v = Inr (Some img)
             \<and> r ''img'' = Some (PArray (shape img) (pixels img))
             \<and> r ''img_shape'' = Some (shape_tuple (shape img)))
       \<and> r ''img_fields'' = Some (PList [PStr ''img''])
       \<and> (\<forall>p. results ''img'' = Some (PStr p) \<longrightarrow>
             r ''filename'' = Some (PStr p) \<and> r ''ori_filename'' = Some (PStr p))
       \<and> ((\<forall>p. results ''img'' \<noteq> Some (PStr p)) \<longrightarrow>
             r ''filename'' = Some PNone \<and> r ''ori_filename'' = Some PNone)"
proof -
  from assms obtain v where v: "results ''img'' = Some v"
    by (cases "results ''img''") (simp_all add: LoadImage_call_def)
  from assms v obtain img where img: "rd v = Inr (Some img)"
    by (cases "rd v") (auto simp: LoadImage_call_def Let_def split: option.splits)
  show ?thesis
  proof (cases "is_str v")
    case True
    then obtain q where q: "v = PStr q"
      by (cases v) (simp_all add: is_str_def)
    from assms v img q have "r = results(''filename'' \<mapsto> v, ''ori_filename'' \<mapsto> v,
        ''img'' \<mapsto> PArray (shape img) (pixels img), ''img_fields'' \<mapsto> PList [PStr ''img''],
        ''img_shape'' \<mapsto> shape_tuple (shape img), ''ori_shape'' \<mapsto> shape_tuple (shape img))"
      by (simp add: LoadImage_call_def is_str_def)
    with v img q show ?thesis by simp
  next
    case False
    then have n: "\<forall>p. v \<noteq> PStr p"
      by (auto simp: is_str_def)
    from assms v img False have "r = results(''filename'' \<mapsto> PNone, ''ori_filename'' \<mapsto> PNone,
        ''img'' \<mapsto> PArray (shape img) (pixels img), ''img_fields'' \<mapsto> PList [PStr ''img''],
        ''img_shape'' \<mapsto> shape_tuple (shape img), ''ori_shape'' \<mapsto> shape_tuple (shape img))"
      by (simp add: LoadImage_call_def)
    with v img n show ?thesis by simp
  qed
qed

theorem LoadImage_returned_dict_witness:
  "LoadImage_call demo_imread [''img'' \<mapsto> PStr ''a.jpg'']
     = Inr [''img'' \<mapsto> PArray [2, 3, 3] 7, ''filename'' \<mapsto> PStr ''a.jpg'',
            ''ori_filename'' \<mapsto> PStr ''a.jpg'', ''img_fields'' \<mapsto> PList [PStr ''img''],
            ''img_shape'' \<mapsto> PTuple [PInt 2, PInt 3, PInt 3],
            ''ori_shape'' \<mapsto> PTuple [PInt 2, PInt 3, PInt 3]]
   \<and> LoadImage_call demo_imread [''img'' \<mapsto> PArray [4, 5, 3] 9]
     = Inr [''img'' \<mapsto> PArray [4, 5, 3] 9, ''filename'' \<mapsto> PNone,
            ''ori_filename'' \<mapsto> PNone, ''img_fields'' \<mapsto> PList [PStr ''img''],
            ''img_shape'' \<mapsto> PTuple [PInt 4, PInt 5, PInt 3],
            ''ori_shape'' \<mapsto> PTuple [PInt 4, PInt 5, PInt 3]]"
proof -
  let ?r1 = "[''img'' \<mapsto> PArray [2, 3, 3] 7, ''filename'' \<mapsto> PStr ''a.jpg'',
            ''ori_filename'' \<mapsto> PStr ''a.jpg'', ''img_fields'' \<mapsto> PList [PStr ''img''],
            ''img_shape'' \<mapsto> PTuple [PInt 2, PInt 3, PInt 3],
            ''ori_shape'' \<mapsto> PTuple [PInt 2, PInt 3, PInt 3]]"
  let ?r2 = "[''img'' \<mapsto> PArray [4, 5, 3] 9, ''filename'' \<mapsto> PNone,
            ''ori_filename'' \<mapsto> PNone, ''img_fields'' \<mapsto> PList [PStr ''img''],
            ''img_shape'' \<mapsto> PTuple [PInt 4, PInt 5, PInt 3],
            ''ori_shape'' \<mapsto> PTuple [PInt 4, PInt 5, PInt 3]]"
  have 1: "LoadImage_call demo_imread [''img'' \<mapsto> PStr ''a.jpg''] = Inr ?r1"
    by (auto simp: LoadImage_call_def demo_imread_def is_str_def shape_tuple_def fun_eq_iff)
  have 2: "LoadImage_call demo_imread [''img'' \<mapsto> PArray [4, 5, 3] 9] = Inr ?r2"
    by (auto simp: LoadImage_call_def demo_imread_def is_str_def shape_tuple_def fun_eq_iff)
  from LoadImage_returned_dict [OF 1] LoadImage_returned_dict [OF 2] 1 2
  show ?thesis by simp
qed


section \<open>The grad mode and the move to CUDA\<close>

lemma prepare_frame:
  assumes "prepare e img s = (r, s')"
  shows "grad_enabled s' = grad_enabled s \<and> forward_grad_log s' = forward_grad_log s"
  using assms
  by (auto simp: prepare_def Let_def
      split: option.splits sum.splits if_splits prod.splits list.splits container.splits)

lemma call_model_frame:
  "call_model form args s = (r, s') \<Longrightarrow>
   grad_enabled s' = grad_enabled s
   \<and> forward_grad_log s' = forward_grad_log s @ [grad_enabled s]"
  by (auto simp: call_model_def)

lemma forward_and_score_frame:
  assumes "forward_and_score e c data s = (r, s')"
  shows "\<exists>n\<le>2. forward_grad_log s' = forward_grad_log s @ replicate n (grad_enabled s)"
proof (cases "b_img data")
  case Nil
  with assms have "s' = s" by (simp add: forward_and_score_def)
  then show ?thesis by (intro exI [of _ 0]) simp
next
  case (Cons t ts)
  show ?thesis
  proof (cases "cuda e t")
    case (Inl err)
    with assms Cons have "s' = s" by (simp add: forward_and_score_def)
    then show ?thesis by (intro exI [of _ 0]) simp
  next
    case (Inr t')
    let ?kw = "\<lparr>kw_x = t' # ts, kw_img_metas = b_img_metas data\<rparr>"
    obtain r1 s1 where c1: "call_model forward_result ?kw s = (r1, s1)"
      by (cases "call_model forward_result ?kw s") blast
    from call_model_frame [OF c1]
    have g1: "grad_enabled s1 = grad_enabled s"
      and l1: "forward_grad_log s1 = forward_grad_log s @ [grad_enabled s]"
      by simp_all
    show ?thesis
    proof (cases r1)
      case (Inl err)
      with assms Cons Inr c1 have "s' = s1"
        by (simp add: forward_and_score_def)
      with l1 show ?thesis by (intro exI [of _ 1]) simp
    next
      case res: (Inr result)
      obtain r2 s2 where c2: "call_model forward_heads ?kw s1 = (r2, s2)"
        by (cases "call_model forward_heads ?kw s1") blast
      from call_model_frame [OF c2] g1 l1
      have l2: "forward_grad_log s2 = forward_grad_log s @ [grad_enabled s, grad_enabled s]"
        by simp
      from assms Cons Inr c1 res c2 have "s' = s2"
        by (auto simp: forward_and_score_def split: sum.splits prod.splits)
      with l2 show ?thesis by (intro exI [of _ 2]) (simp add: numeral_2_eq_2)
    qed
  qed
qed

lemma no_grad_restores: "grad_enabled (snd (no_grad body s)) = grad_enabled s"
  by (simp add: no_grad_def set_grad_enabled_def split: prod.splits)

lemma no_grad_log:
  "forward_grad_log (snd (no_grad body s))
     = forward_grad_log (snd (body (set_grad_enabled False s)))"
  by (simp add: no_grad_def set_grad_enabled_def split: prod.splits)

lemma inference_detector_grad: "grad_enabled (snd (inference_detector e img s)) = grad_enabled s"
proof (cases "prepare e img s")
  case (Pair r s1)
  from prepare_frame [OF Pair] have g: "grad_enabled s1 = grad_enabled s" by simp
  show ?thesis
  proof (cases r)
    case (Inl err)
    with Pair g show ?thesis by (simp add: inference_detector_def)
  next
    case (Inr cd)
    with Pair g show ?thesis
      by (cases cd) (simp add: inference_detector_def no_grad_restores)
  qed
qed

lemma inference_detector_log:
  "\<exists>n\<le>2. forward_grad_log (snd (inference_detector e img s))
            = forward_grad_log s @ replicate n False"
proof (cases "prepare e img s")
  case (Pair r s1)
  from prepare_frame [OF Pair] have l: "forward_grad_log s1 = forward_grad_log s" by simp
  show ?thesis
  proof (cases r)
    case (Inl err)
    with Pair l have "forward_grad_log (snd (inference_detector e img s)) = forward_grad_log s"
      by (simp add: inference_detector_def)
    then show ?thesis by (intro exI [of _ 0]) simp
  next
    case (Inr cd)
    obtain c data where cd: "cd = (c, data)" by (cases cd)
    let ?s = "set_grad_enabled False s1"
    obtain r2 s2 where b: "forward_and_score e c data ?s = (r2, s2)"
      by (cases "forward_and_score e c data ?s") blast
    from forward_and_score_frame [OF b] l
    obtain n where "n \<le> 2" "forward_grad_log s2 = forward_grad_log s @ replicate n False"
      by (auto simp: set_grad_enabled_def)
    moreover from Pair Inr cd b
    have "forward_grad_log (snd (inference_detector e img s)) = forward_grad_log s2"
      by (simp add: inference_detector_def no_grad_log)
    ultimately show ?thesis by auto
  qed
qed

lemma async_after_prepare:
  assumes "async_prepare e img s = Inr data"
  shows "grad_enabled (snd (async_inference_detector e img s)) = False
       \<and> forward_grad_log (snd (async_inference_detector e img s))
           = forward_grad_log s @ [False]"
  using assms
  by (simp add: async_inference_detector_def call_model_def set_grad_enabled_def)

lemma demo_uncertainty:
  "uncertainty demo_config [[[0, 0]], [[0, 0]]] [[[0, 0]], [[0, 0]]] = Inr (Val 0)"
  by (simp add: uncertainty_def demo_config_def cat0_def t_sigmoid_def t_map_def sigmoid_def
      uncertainty_all_N_def t_ops t_binop_def mean_dim1_def mean_def
      uncertainty_single_def argsort_def slice_from_def index_by_def mean_all_def)

lemma demo_cpu_prepared:
  "prepare (demo_env cu) (PStr ''a.jpg'') (demo_session Cpu)
     = (Inr (demo_config, \<lparr>b_img = [ImgTensor Cpu 0], b_img_metas = PNone\<rparr>),
        \<lparr>sess_model = (demo_detector Cpu)
           \<lparr>modules := [\<lparr>is_roi = True, aligned = Some False, use_torchvision = True\<rparr>]\<rparr>,
         grad_enabled = True,
         warnings_log = [''We set use_torchvision=True in CPU mode.''],
         forward_grad_log = []\<rparr>)"
  by (simp add: prepare_def demo_session_def demo_detector_def demo_env_def
      next_parameter_def is_cuda_def load_and_collate_def LoadImage_call_def demo_imread_def)

lemma demo_cpu_run:
  "inference_detector (demo_env True) (PStr ''a.jpg'') (demo_session Cpu)
     = (Inr (PList [], Val 0),
        \<lparr>sess_model = (demo_detector Cpu)
           \<lparr>modules := [\<lparr>is_roi = True, aligned = Some False, use_torchvision = True\<rparr>]\<rparr>,
         grad_enabled = True,
         warnings_log = [''We set use_torchvision=True in CPU mode.''],
         forward_grad_log = [False, False]\<rparr>)"
  unfolding inference_detector_def demo_cpu_prepared
  by (simp add: no_grad_def set_grad_enabled_def forward_and_score_def call_model_def
      demo_env_def demo_detector_def demo_uncertainty)

text \<open>
  C7. \<open>inference_detector\<close> leaves the grad mode as it found it, whether it returns or
  raises, and each call of the detector it makes (at most two) sees the grad mode
  disabled. \<open>async_inference_detector\<close>, once its data are prepared, calls the detector
  with the grad mode disabled and leaves it disabled, whatever it was before.
\<close>

theorem grad_mode_scope:
  "grad_enabled (snd (inference_detector e img s)) = grad_enabled s
   \<and> (\<exists>n\<le>2. forward_grad_log (snd (inference_detector e img s))
               = forward_grad_log s @ replicate n False)
   \<and> (\<forall>data. async_prepare e img s = Inr data \<longrightarrow>
         grad_enabled (snd (async_inference_detector e img s)) = False
         \<and> forward_grad_log (snd (async_inference_detector e img s))
             = forward_grad_log s @ [False])"
  using inference_detector_grad [of e img s] inference_detector_log [of e img s]
    async_after_prepare [of e img s]
  by blast

lemma demo_prepared:
  "async_prepare (demo_env True) (PStr ''a.jpg'') (demo_session (Cuda 0))
     = Inr \<lparr>b_img = [ImgTensor Cpu 0], b_img_metas = PList []\<rparr>"
  by (simp add: async_prepare_def demo_session_def demo_detector_def demo_env_def
      next_parameter_def load_and_collate_def LoadImage_call_def demo_imread_def)

theorem grad_mode_scope_witness:
  "async_prepare (demo_env True) (PStr ''a.jpg'') (demo_session (Cuda 0))
     = Inr \<lparr>b_img = [ImgTensor Cpu 0], b_img_metas = PList []\<rparr>
   \<and> grad_enabled (demo_session (Cuda 0)) = True
   \<and> grad_enabled (snd (async_inference_detector (demo_env True) (PStr ''a.jpg'')
                          (demo_session (Cuda 0)))) = False
   \<and> forward_grad_log (snd (async_inference_detector (demo_env True) (PStr ''a.jpg'')
                          (demo_session (Cuda 0)))) = [False]
   \<and> grad_enabled (snd (inference_detector (demo_env True) (PStr ''a.jpg'')
                          (demo_session (Cuda 0)))) = True
   \<and> grad_enabled (demo_session Cpu) = True
   \<and> grad_enabled (snd (inference_detector (demo_env True) (PStr ''a.jpg'')
                          (demo_session Cpu))) = True
   \<and> forward_grad_log (snd (inference_detector (demo_env True) (PStr ''a.jpg'')
                          (demo_session Cpu))) = [False, False]"
proof -
  have l: "forward_grad_log (demo_session (Cuda 0)) = []"
    and g: "grad_enabled (demo_session (Cuda 0)) = True"
    and g': "grad_enabled (demo_session Cpu) = True"
    by (simp_all add: demo_session_def)
  have r: "forward_grad_log (snd (inference_detector (demo_env True) (PStr ''a.jpg'')
                          (demo_session Cpu))) = [False, False]"
    by (simp add: demo_cpu_run)
  from grad_mode_scope [of "demo_env True" "PStr ''a.jpg''" "demo_session (Cuda 0)"]
    grad_mode_scope [of "demo_env True" "PStr ''a.jpg''" "demo_session Cpu"]
    demo_prepared l g g' r
  show ?thesis by simp
qed

lemma inference_detector_needs_cuda:
  assumes "fst (inference_detector e img s) = Inr r"
  shows "\<exists>c data s' t ts t'. prepare e img s = (Inr (c, data), s')
           \<and> b_img data = t # ts \<and> cuda e t = Inr t'"
proof -
  obtain p s1 where p: "prepare e img s = (p, s1)"
    by (cases "prepare e img s") blast
  with assms obtain c data where cd: "p = Inr (c, data)"
    by (cases p) (auto simp: inference_detector_def)
  let ?s = "set_grad_enabled False s1"
  from assms p cd have run: "fst (forward_and_score e c data ?s) = Inr r"
    by (simp add: inference_detector_def no_grad_def split: prod.splits)
  then obtain t ts where ts: "b_img data = t # ts"
    by (cases "b_img data") (simp_all add: forward_and_score_def)
  with run obtain t' where "cuda e t = Inr t'"
    by (cases "cuda e t") (simp_all add: forward_and_score_def)
  with p cd ts show ?thesis by blast
qed

lemma inference_detector_cuda_raises:
  assumes "prepare e img s = (Inr (c, data), s')" and "b_img data = t # ts"
    and "cuda e t = Inl err"
  shows "fst (inference_detector e img s) = Inl err
       \<and> forward_grad_log (snd (inference_detector e img s)) = forward_grad_log s"
  using assms prepare_frame [OF assms(1)]
  by (simp add: inference_detector_def no_grad_def forward_and_score_def
      set_grad_enabled_def)

text \<open>
  C8. \<open>inference_detector\<close> moves the first image tensor to CUDA on every path that
  reaches the forward pass, the CPU branch included: it returns only if that
  \<^verbatim>\<open>.cuda()\<close> succeeded; if \<^verbatim>\<open>.cuda()\<close> raises, as it does on a host without CUDA,
  \<open>inference_detector\<close> raises the same error with no call of the detector made; and on a
  host where every \<^verbatim>\<open>.cuda()\<close> raises it never returns a result.
\<close>

theorem cuda_unconditional:
  "(\<forall>r. fst (inference_detector e img s) = Inr r \<longrightarrow>
        (\<exists>c data s' t ts t'. prepare e img s = (Inr (c, data), s')
            \<and> b_img data = t # ts \<and> cuda e t = Inr t'))
   \<and> (\<forall>c data s' t ts err.
        prepare e img s = (Inr (c, data), s') \<and> b_img data = t # ts \<and> cuda e t = Inl err
        \<longrightarrow> fst (inference_detector e img s) = Inl err
            \<and> forward_grad_log (snd (inference_detector e img s)) = forward_grad_log s)
   \<and> ((\<forall>t. \<exists>err. cuda e t = Inl err) \<longrightarrow>
        (\<exists>err. fst (inference_detector e img s) = Inl err))"
proof (intro conjI allI impI)
  fix r assume "fst (inference_detector e img s) = Inr r"
  then show "\<exists>c data s' t ts t'. prepare e img s = (Inr (c, data), s')
               \<and> b_img data = t # ts \<and> cuda e t = Inr t'"
    by (rule inference_detector_needs_cuda)
next
  fix c data s' t ts err
  assume a: "prepare e img s = (Inr (c, data), s') \<and> b_img data = t # ts
             \<and> cuda e t = Inl err"
  then show "fst (inference_detector e img s) = Inl err"
    using inference_detector_cuda_raises [of e img s c data s' t ts err] by blast
  from a show "forward_grad_log (snd (inference_detector e img s)) = forward_grad_log s"
    using inference_detector_cuda_raises [of e img s c data s' t ts err] by blast
next
  assume no_cuda: "\<forall>t. \<exists>err. cuda e t = Inl err"
  show "\<exists>err. fst (inference_detector e img s) = Inl err"
  proof (cases "fst (inference_detector e img s)")
    case (Inl err)
    then show ?thesis by blast
  next
    case (Inr r)
    from inference_detector_needs_cuda [OF Inr] no_cuda show ?thesis
      by (metis sum.distinct(1))
  qed
qed

theorem cuda_unconditional_witness:
  "next_parameter (sess_model (demo_session Cpu)) = Inr Cpu
   \<and> cuda (demo_env False) (ImgTensor Cpu 0) = Inl (External ''no CUDA device'')
   \<and> warnings_log (snd (prepare (demo_env False) (PStr ''a.jpg'') (demo_session Cpu)))
       = [''We set use_torchvision=True in CPU mode.'']
   \<and> fst (inference_detector (demo_env False) (PStr ''a.jpg'') (demo_session Cpu))
       = Inl (External ''no CUDA device'')
   \<and> fst (inference_detector (demo_env True) (PStr ''a.jpg'') (demo_session Cpu))
       = Inr (PList [], Val 0)
   \<and> cuda (demo_env True) (ImgTensor Cpu 0) = Inr (ImgTensor (Cuda 0) 0)"
proof -
  have c: "cuda (demo_env False) (ImgTensor Cpu 0) = Inl (External ''no CUDA device'')"
    and c': "cuda (demo_env True) (ImgTensor Cpu 0) = Inr (ImgTensor (Cuda 0) 0)"
    by (simp_all add: demo_env_def)
  have p: "next_parameter (sess_model (demo_session Cpu)) = Inr Cpu"
    by (simp add: next_parameter_def demo_session_def demo_detector_def)
  have r: "fst (inference_detector (demo_env True) (PStr ''a.jpg'') (demo_session Cpu))
             = Inr (PList [], Val 0)"
    by (simp add: demo_cpu_run)
  from cuda_unconditional [of "demo_env False" "PStr ''a.jpg''" "demo_session Cpu"]
    demo_cpu_prepared [of False] c
  have "fst (inference_detector (demo_env False) (PStr ''a.jpg'') (demo_session Cpu))
          = Inl (External ''no CUDA device'')"
    by simp
  moreover
  from cuda_unconditional [of "demo_env True" "PStr ''a.jpg''" "demo_session Cpu"] r
  have "\<exists>c data s' t ts t'.
          prepare (demo_env True) (PStr ''a.jpg'') (demo_session Cpu) = (Inr (c, data), s')
          \<and> b_img data = t # ts \<and> cuda (demo_env True) t = Inr t'"
    by simp
  ultimately show ?thesis
    using c c' p r demo_cpu_prepared [of False] by simp
qed


end
